theory Spec2Isabelle
  imports Complex_Main
begin

section \<open>Values of the JavaScript runtime\<close>

text \<open>
  The module \<^verbatim>\<open>src/chat/agentforce.ts\<close> is a set of asynchronous functions that talk to
  three collaborators: the HTTP client (axios), the AppLink broker SDK and the framework
  cache behind the \<^verbatim>\<open>"use cache"\<close> directive. An \<^verbatim>\<open>await\<close>ed call either yields a value or
  throws, so every function is a state transformer that returns \<open>Inl\<close> of the thrown
  value or \<open>Inr\<close> of the result, together with the new state. Writes to the console are
  not part of the state.
\<close>

text \<open>A JSON object whose fields hold strings; a field that is missing reads as undefined.\<close>

type_synonym json_object = "(string \<times> string) list"

text \<open>JavaScript truthiness of a field read: undefined and the empty string are falsy.\<close>

definition truthy :: "string option \<Rightarrow> bool" where
  "truthy v = (case v of None \<Rightarrow> False | Some x \<Rightarrow> x \<noteq> [])"

text \<open>A value of type \<^verbatim>\<open>number\<close>: a finite value, NaN or one of the infinities.\<close>

datatype js_number = Finite rat | NaN | PosInfinity | NegInfinity

text \<open>The comparison \<^verbatim>\<open>n < 0\<close>; every comparison with NaN is false.\<close>

definition less_than_zero :: "js_number \<Rightarrow> bool" where
  "less_than_zero n = (case n of Finite q \<Rightarrow> q < 0 | NegInfinity \<Rightarrow> True | _ \<Rightarrow> False)"

text \<open>
  Thrown values: a plain \<^verbatim>\<open>Error\<close> with its message, an axios error with its optional
  \<^verbatim>\<open>code\<close> and optional \<^verbatim>\<open>response\<close> (status and status text), and \<^verbatim>\<open>undefined\<close>.
\<close>

datatype js_error =
    Error string
  | AxiosError "string option" "(nat \<times> string) option"
  | ThrownUndefined

definition isAxiosError :: "js_error \<Rightarrow> bool" where
  "isAxiosError error = (case error of AxiosError c r \<Rightarrow> True | _ \<Rightarrow> False)"

text \<open>\<^verbatim>\<open>error.code\<close>, \<^verbatim>\<open>error.response?.status\<close> and \<^verbatim>\<open>error.response?.statusText\<close>.\<close>

definition error_code :: "js_error \<Rightarrow> string option" where
  "error_code error = (case error of AxiosError c r \<Rightarrow> c | _ \<Rightarrow> None)"

definition response_status :: "js_error \<Rightarrow> nat option" where
  "response_status error = (case error of AxiosError c (Some (st, txt)) \<Rightarrow> Some st | _ \<Rightarrow> None)"

definition response_statusText :: "js_error \<Rightarrow> string option" where
  "response_statusText error = (case error of AxiosError c (Some (st, txt)) \<Rightarrow> Some txt | _ \<Rightarrow> None)"

text \<open>A status code in a template string: its decimal digits.\<close>

fun decimal :: "nat \<Rightarrow> string" where
  "decimal n = (if n < 10 then [''0123456789'' ! n]
                else decimal (n div 10) @ [''0123456789'' ! (n mod 10)])"

declare decimal.simps [simp del]

text \<open>\<^verbatim>\<open>String.prototype.replace\<close> with a string pattern: the first occurrence only.\<close>

fun replace_first :: "string \<Rightarrow> string \<Rightarrow> string \<Rightarrow> string" where
  "replace_first pat rep [] = (if pat = [] then rep else [])"
| "replace_first pat rep (c # cs) =
     (if take (length pat) (c # cs) = pat then rep @ drop (length pat) (c # cs)
      else c # replace_first pat rep cs)"

text \<open>
  \<^verbatim>\<open>String.prototype.trim\<close>. A \<open>char\<close> is one code unit below 256; the white space and
  line terminators in that range are tab, line feed, vertical tab, form feed, carriage
  return, space and the no-break space.
\<close>

definition is_whitespace :: "char \<Rightarrow> bool" where
  "is_whitespace c = (c \<in> set [CHR 0x09, CHR 0x0A, CHR 0x0B, CHR 0x0C, CHR 0x0D, CHR 0x20, CHR 0xA0])"

definition trim :: "string \<Rightarrow> string" where
  "trim text = rev (dropWhile is_whitespace (rev (dropWhile is_whitespace text)))"

section \<open>Configuration, requests and the outside world\<close>

datatype AuthMode = Direct | Applink

record AuthCredentials =
  accessToken :: string
  apiInstanceUrl :: string

text \<open>
  The environment variables read through \<^verbatim>\<open>@/config/env\<close>, a module that is not among the
  sources: they are parameters. \<^verbatim>\<open>SF_AGENT_ID\<close> may be unset.
\<close>

record configuration =
  SF_MY_DOMAIN_URL :: string
  SF_CONSUMER_KEY :: string
  SF_CONSUMER_SECRET :: string
  SF_AGENT_ID :: "string option"
  SF_JWT_CONNECTION_NAME :: string

text \<open>The getters and endpoint builders of class \<^verbatim>\<open>AgentForceConfiguration\<close>.\<close>

definition baseUrl :: "configuration \<Rightarrow> string" where
  "baseUrl cfg = replace_first ''https://'' '''' (SF_MY_DOMAIN_URL cfg)"

definition getAuthEndpoint :: "configuration \<Rightarrow> string" where
  "getAuthEndpoint cfg = ''https://'' @ baseUrl cfg @ ''/services/oauth2/token''"

definition getSessionEndpoint :: "string \<Rightarrow> string" where
  "getSessionEndpoint sessionId = ''/einstein/ai-agent/v1/sessions/'' @ sessionId"

definition getStreamingEndpoint :: "string \<Rightarrow> string" where
  "getStreamingEndpoint sessionId =
     ''/einstein/ai-agent/v1/sessions/'' @ sessionId @ ''/messages/stream''"

text \<open>
  The body of a request. The session payload also carries the constants
  \<^verbatim>\<open>featureSupport: "Streaming"\<close>, \<^verbatim>\<open>streamingCapabilities: {chunkTypes: ["Text"]}\<close> and
  \<^verbatim>\<open>bypassUser: true\<close>; the message payload carries \<^verbatim>\<open>type: "Text"\<close>.
\<close>

datatype payload =
    FormParams "(string \<times> string) list"
  | SessionPayload string string
  | MessagePayload js_number string
  | NoPayload

text \<open>The options object handed to axios; \<open>request_method\<close> is its field \<^verbatim>\<open>method\<close>.\<close>

record http_request =
  request_method :: string
  url :: string
  headers :: "(string \<times> string) list"
  data :: payload
  timeout :: nat
  responseType :: "string option"

text \<open>What axios does with a request: it resolves with the response data or rejects
  with an axios error.\<close>

datatype http_outcome =
    Resolve json_object
  | Reject "string option" "(nat \<times> string) option"

text \<open>What \<^verbatim>\<open>getAuthorization\<close> of the broker SDK does: it resolves with an object whose
  \<^verbatim>\<open>accessToken\<close> and \<^verbatim>\<open>domainUrl\<close> may be missing, or it throws an \<^verbatim>\<open>Error\<close> or
  some other value.\<close>

datatype broker_outcome =
    Authorization "string option" "string option"
  | BrokerError string
  | BrokerNonError

text \<open>
  The outside world is a parameter: the remote side answers a request knowing the
  requests made before it, the broker answers knowing the earlier lookups, and
  \<^verbatim>\<open>crypto.randomUUID\<close> yields the n-th identifier.
\<close>

record environment =
  config :: configuration
  remote :: "http_request list \<Rightarrow> http_request \<Rightarrow> http_outcome"
  broker :: "string list \<Rightarrow> string \<Rightarrow> broker_outcome"
  randomUUID :: "nat \<Rightarrow> string"

text \<open>
  The state the module acts on: the requests sent, the broker lookups made, the delays
  passed to \<^verbatim>\<open>setTimeout\<close>, the number of identifiers drawn, and the two caches of the
  \<^verbatim>\<open>"use cache"\<close> functions. The framework keys a cached function by its arguments:
  \<^verbatim>\<open>getToken\<close> has none, \<^verbatim>\<open>getSession\<close> has two. Every session entry carries the tag
  \<^verbatim>\<open>"session"\<close>.
\<close>

record state =
  http_log :: "http_request list"
  broker_log :: "string list"
  timers :: "nat list"
  uuids_drawn :: nat
  token_cache :: "AuthCredentials option"
  session_cache :: "((string option \<times> AuthMode) \<times> json_object) list"

type_synonym 'a promise = "state \<Rightarrow> (js_error + 'a) \<times> state"

definition axios :: "environment \<Rightarrow> http_request \<Rightarrow> json_object promise" where
  "axios env req s =
     (let s' = s\<lparr>http_log := http_log s @ [req]\<rparr> in
      case remote env (http_log s) req of
        Resolve d \<Rightarrow> (Inr d, s')
      | Reject c r \<Rightarrow> (Inl (AxiosError c r), s'))"

definition setTimeout :: "nat \<Rightarrow> state \<Rightarrow> state" where
  "setTimeout ms s = s\<lparr>timers := timers s @ [ms]\<rparr>"

definition revalidateTag_session :: "state \<Rightarrow> state" where
  "revalidateTag_session s = s\<lparr>session_cache := []\<rparr>"

section \<open>The retry utility\<close>

text \<open>
  The \<^verbatim>\<open>for\<close> loop of \<^verbatim>\<open>retryOperation\<close>, from the value \<open>attempt\<close> of its counter on,
  with the current \<^verbatim>\<open>lastError\<close>. Leaving the loop throws \<^verbatim>\<open>lastError\<close>.
\<close>

function retry_loop ::
  "'a promise \<Rightarrow> nat \<Rightarrow> nat \<Rightarrow> nat \<Rightarrow> js_error option \<Rightarrow> 'a promise" where
  "retry_loop operation maxRetries delayMs attempt lastError s =
     (if attempt \<le> maxRetries then
        (case operation s of
           (Inr v, s') \<Rightarrow> (Inr v, s')
         | (Inl error, s') \<Rightarrow>
             if isAxiosError error
                \<and> (case response_status error of Some st \<Rightarrow> st \<noteq> 0 \<and> st < 500 | None \<Rightarrow> False)
             then (Inl error, s')
             else if attempt = maxRetries
             then (Inl error, s')
             else retry_loop operation maxRetries delayMs (attempt + 1) (Some error)
                    (setTimeout (delayMs * (attempt + 1)) s'))
      else (case lastError of Some error \<Rightarrow> (Inl error, s) | None \<Rightarrow> (Inl ThrownUndefined, s)))"
  by pat_completeness auto
termination
  by (relation "measure (\<lambda>(operation, maxRetries, delayMs, attempt, lastError, s).
        Suc maxRetries - attempt)") auto

declare retry_loop.simps [simp del]

definition retryOperation :: "'a promise \<Rightarrow> nat \<Rightarrow> nat \<Rightarrow> 'a promise" where
  "retryOperation operation maxRetries delayMs = retry_loop operation maxRetries delayMs 0 None"

section \<open>Credential providers\<close>

definition token_request :: "configuration \<Rightarrow> http_request" where
  "token_request cfg =
     \<lparr>request_method = ''post'',
      url = getAuthEndpoint cfg,
      headers = [(''Content-Type'', ''application/x-www-form-urlencoded'')],
      data = FormParams [(''grant_type'', ''client_credentials''),
                         (''client_id'', SF_CONSUMER_KEY cfg),
                         (''client_secret'', SF_CONSUMER_SECRET cfg)],
      timeout = 10000,
      responseType = None\<rparr>"

text \<open>The \<^verbatim>\<open>try\<close> block of \<^verbatim>\<open>getToken\<close>.\<close>

definition getToken_try :: "environment \<Rightarrow> AuthCredentials promise" where
  "getToken_try env s =
     (case axios env (token_request (config env)) s of
        (Inl error, s') \<Rightarrow> (Inl error, s')
      | (Inr d, s') \<Rightarrow>
          if \<not> truthy (map_of d ''access_token'') \<or> \<not> truthy (map_of d ''api_instance_url'')
          then (Inl (Error ''Invalid authentication response: missing access token or API instance URL''), s')
          else (Inr \<lparr>accessToken = the (map_of d ''access_token''),
                     apiInstanceUrl = the (map_of d ''api_instance_url'')\<rparr>, s'))"

text \<open>The \<^verbatim>\<open>catch\<close> block of \<^verbatim>\<open>getToken\<close>: the error it throws for the error it caught.\<close>

definition getToken_catch :: "js_error \<Rightarrow> js_error" where
  "getToken_catch error =
     (if isAxiosError error then
        (if error_code error = Some ''ECONNABORTED''
         then Error ''Authentication timeout: Unable to connect to Salesforce''
         else if response_status error = Some 401
         then Error ''Authentication failed: Invalid client credentials''
         else if (case response_status error of Some st \<Rightarrow> st \<ge> 500 | None \<Rightarrow> False)
         then Error ''Authentication failed: Salesforce service temporarily unavailable''
         else Error (''Authentication failed: '' @
                (case response_status error of
                   Some st \<Rightarrow> if st \<noteq> 0 then decimal st else ''Network error''
                 | None \<Rightarrow> ''Network error'')))
      else Error ''Authentication failed: Unable to connect to Salesforce'')"

text \<open>\<^verbatim>\<open>getToken\<close> under \<^verbatim>\<open>"use cache"\<close>: a cached result is returned without running the
  body; a result of the body is stored, a throw is not.\<close>

definition getToken :: "environment \<Rightarrow> AuthCredentials promise" where
  "getToken env s =
     (case token_cache s of
        Some cached \<Rightarrow> (Inr cached, s)
      | None \<Rightarrow>
          (case getToken_try env s of
             (Inl error, s') \<Rightarrow> (Inl (getToken_catch error), s')
           | (Inr credentials, s') \<Rightarrow> (Inr credentials, s'\<lparr>token_cache := Some credentials\<rparr>)))"

text \<open>The \<^verbatim>\<open>try\<close> block of \<^verbatim>\<open>getTokenFromAppLink\<close>: the lookup of the named authorization
  at the broker. The domain URL that comes with the token is not read.\<close>

definition getTokenFromAppLink_try :: "environment \<Rightarrow> AuthCredentials promise" where
  "getTokenFromAppLink_try env s =
     (let authorizationName = SF_JWT_CONNECTION_NAME (config env);
          s' = s\<lparr>broker_log := broker_log s @ [authorizationName]\<rparr> in
      case broker env (broker_log s) authorizationName of
        Authorization token domainUrl \<Rightarrow>
          if \<not> truthy token
          then (Inl (Error ''Invalid AppLink authorization response: missing access token''), s')
          else (Inr \<lparr>accessToken = the token, apiInstanceUrl = ''https://api.salesforce.com''\<rparr>, s')
      | BrokerError message \<Rightarrow> (Inl (Error message), s')
      | BrokerNonError \<Rightarrow> (Inl ThrownUndefined, s'))"

text \<open>The \<^verbatim>\<open>catch\<close> block of \<^verbatim>\<open>getTokenFromAppLink\<close>. The broker is modelled as throwing
  plain errors only, so the message of an axios error is never read.\<close>

definition getTokenFromAppLink_catch :: "js_error \<Rightarrow> js_error" where
  "getTokenFromAppLink_catch error =
     (case error of
        Error message \<Rightarrow> Error (''AppLink authentication failed: '' @ message)
      | _ \<Rightarrow> Error ''AppLink authentication failed: Unable to retrieve credentials'')"

definition getTokenFromAppLink :: "environment \<Rightarrow> AuthCredentials promise" where
  "getTokenFromAppLink env s =
     (case getTokenFromAppLink_try env s of
        (Inl error, s') \<Rightarrow> (Inl (getTokenFromAppLink_catch error), s')
      | (Inr credentials, s') \<Rightarrow> (Inr credentials, s'))"

definition getCredentials :: "environment \<Rightarrow> AuthMode \<Rightarrow> AuthCredentials promise" where
  "getCredentials env mode s =
     (if mode = Applink then getTokenFromAppLink env s else getToken env s)"

section \<open>Sessions\<close>

definition session_request ::
  "configuration \<Rightarrow> AuthCredentials \<Rightarrow> string \<Rightarrow> string \<Rightarrow> http_request" where
  "session_request cfg credentials targetAgentId uuid =
     \<lparr>request_method = ''post'',
      url = apiInstanceUrl credentials @ ''/einstein/ai-agent/v1/agents/'' @ targetAgentId @ ''/sessions'',
      headers = [(''Content-Type'', ''application/json''),
                 (''Authorization'', ''Bearer '' @ accessToken credentials)],
      data = SessionPayload uuid (''https://'' @ baseUrl cfg @ ''/''),
      timeout = 15000,
      responseType = None\<rparr>"

text \<open>The \<^verbatim>\<open>try\<close> block of the function that \<^verbatim>\<open>newSession\<close> hands to the retry utility.\<close>

definition newSession_try ::
  "environment \<Rightarrow> string option \<Rightarrow> AuthMode \<Rightarrow> json_object promise" where
  "newSession_try env agentId authMode s =
     (case getCredentials env authMode s of
        (Inl error, s1) \<Rightarrow> (Inl error, s1)
      | (Inr credentials, s1) \<Rightarrow>
          (let uuid = randomUUID env (uuids_drawn s1);
               s2 = s1\<lparr>uuids_drawn := Suc (uuids_drawn s1)\<rparr>;
               targetAgentId = (if truthy agentId then agentId else SF_AGENT_ID (config env)) in
           if \<not> truthy targetAgentId
           then (Inl (Error ''No agent ID provided and no default agent configured''), s2)
           else
             (case axios env (session_request (config env) credentials (the targetAgentId) uuid) s2 of
                (Inl error, s3) \<Rightarrow> (Inl error, s3)
              | (Inr d, s3) \<Rightarrow>
                  if \<not> truthy (map_of d ''sessionId'')
                  then (Inl (Error ''Invalid session response: missing session ID''), s3)
                  else (Inr d, s3))))"

definition newSession_catch :: "js_error \<Rightarrow> js_error" where
  "newSession_catch error =
     (if isAxiosError error then
        (if error_code error = Some ''ECONNABORTED''
         then Error ''Session creation timeout: Agentforce service is taking too long to respond''
         else if response_status error = Some 401
         then Error ''Session creation failed: Authentication expired''
         else if response_status error = Some 403
         then Error ''Session creation failed: Access denied to Agentforce agent''
         else if response_status error = Some 404
         then Error ''Session creation failed: Agentforce agent not found''
         else if (case response_status error of Some st \<Rightarrow> st \<ge> 500 | None \<Rightarrow> False)
         then Error ''Session creation failed: Agentforce service temporarily unavailable''
         else Error (''Session creation failed: '' @
                (if truthy (response_statusText error) then the (response_statusText error)
                 else ''Network error'')))
      else error)"

definition newSession_operation ::
  "environment \<Rightarrow> string option \<Rightarrow> AuthMode \<Rightarrow> json_object promise" where
  "newSession_operation env agentId authMode s =
     (case newSession_try env agentId authMode s of
        (Inl error, s') \<Rightarrow> (Inl (newSession_catch error), s')
      | (Inr d, s') \<Rightarrow> (Inr d, s'))"

definition newSession ::
  "environment \<Rightarrow> string option \<Rightarrow> AuthMode \<Rightarrow> json_object promise" where
  "newSession env agentId authMode =
     retryOperation (newSession_operation env agentId authMode) 2 1500"

text \<open>\<^verbatim>\<open>getSession\<close> under \<^verbatim>\<open>"use cache"\<close>, keyed by its two arguments.\<close>

definition getSession ::
  "environment \<Rightarrow> string option \<Rightarrow> AuthMode \<Rightarrow> json_object promise" where
  "getSession env agentId authMode s =
     (case map_of (session_cache s) (agentId, authMode) of
        Some cached \<Rightarrow> (Inr cached, s)
      | None \<Rightarrow>
          (case newSession env agentId authMode s of
             (Inl error, s') \<Rightarrow> (Inl error, s')
           | (Inr session, s') \<Rightarrow>
               (Inr session,
                s'\<lparr>session_cache := ((agentId, authMode), session) # session_cache s'\<rparr>)))"

definition end_request :: "AuthCredentials \<Rightarrow> string \<Rightarrow> http_request" where
  "end_request credentials sessionId =
     \<lparr>request_method = ''delete'',
      url = apiInstanceUrl credentials @ getSessionEndpoint sessionId,
      headers = [(''x-session-end-reason'', ''UserRequest''),
                 (''Authorization'', ''Bearer '' @ accessToken credentials)],
      data = NoPayload,
      timeout = 10000,
      responseType = None\<rparr>"

text \<open>The destructuring \<^verbatim>\<open>const { sessionId } = ...\<close> followed by the use of the field
  in a template string: a session without the field gives the text \<^verbatim>\<open>undefined\<close>.\<close>

definition sessionId_of :: "json_object \<Rightarrow> string" where
  "sessionId_of session = (case map_of session ''sessionId'' of Some i \<Rightarrow> i | None \<Rightarrow> ''undefined'')"

text \<open>The \<^verbatim>\<open>try\<close> block of \<^verbatim>\<open>endSession\<close>.\<close>

definition endSession_try :: "environment \<Rightarrow> AuthMode \<Rightarrow> json_object promise" where
  "endSession_try env authMode s =
     (case getCredentials env authMode s of
        (Inl error, s1) \<Rightarrow> (Inl error, s1)
      | (Inr credentials, s1) \<Rightarrow>
          (case getSession env None authMode s1 of
             (Inl error, s2) \<Rightarrow> (Inl error, s2)
           | (Inr session, s2) \<Rightarrow>
               (case axios env (end_request credentials (sessionId_of session)) s2 of
                  (Inl error, s3) \<Rightarrow> (Inl error, s3)
                | (Inr d, s3) \<Rightarrow> (Inr d, revalidateTag_session s3))))"

text \<open>\<^verbatim>\<open>endSession\<close>: the \<^verbatim>\<open>catch\<close> block logs and returns \<^verbatim>\<open>null\<close>, here \<open>None\<close>.\<close>

definition endSession :: "environment \<Rightarrow> AuthMode \<Rightarrow> json_object option promise" where
  "endSession env authMode s =
     (case endSession_try env authMode s of
        (Inl error, s') \<Rightarrow> (Inr None, s')
      | (Inr d, s') \<Rightarrow> (Inr (Some d), s'))"

section \<open>Message dispatch\<close>

definition stream_request :: "AuthCredentials \<Rightarrow> string \<Rightarrow> js_number \<Rightarrow> string \<Rightarrow> http_request" where
  "stream_request credentials sessionId sequenceId text =
     \<lparr>request_method = ''post'',
      url = apiInstanceUrl credentials @ getStreamingEndpoint sessionId,
      headers = [(''Accept'', ''text/event-stream''),
                 (''Content-Type'', ''application/json''),
                 (''Authorization'', ''Bearer '' @ accessToken credentials)],
      data = MessagePayload sequenceId (trim text),
      timeout = 30000,
      responseType = Some ''stream''\<rparr>"

text \<open>The \<^verbatim>\<open>try\<close> block of \<^verbatim>\<open>sendStreamingMessage\<close>. The parameter is typed
  \<^verbatim>\<open>number\<close>, so the \<^verbatim>\<open>typeof\<close> test never fires.\<close>

definition sendStreamingMessage_try ::
  "environment \<Rightarrow> string \<Rightarrow> js_number \<Rightarrow> string option \<Rightarrow> AuthMode \<Rightarrow> json_object promise" where
  "sendStreamingMessage_try env text sequenceId agentId authMode s =
     (if text = [] \<or> length (trim text) = 0
      then (Inl (Error ''Message text cannot be empty''), s)
      else if less_than_zero sequenceId
      then (Inl (Error ''Invalid sequence ID''), s)
      else
        (case getCredentials env authMode s of
           (Inl error, s1) \<Rightarrow> (Inl error, s1)
         | (Inr credentials, s1) \<Rightarrow>
             (case getSession env agentId authMode s1 of
                (Inl error, s2) \<Rightarrow> (Inl error, s2)
              | (Inr session, s2) \<Rightarrow>
                  axios env (stream_request credentials (sessionId_of session) sequenceId text) s2)))"

definition sendStreamingMessage_catch :: "js_error \<Rightarrow> js_error" where
  "sendStreamingMessage_catch error =
     (if isAxiosError error then
        (if error_code error = Some ''ECONNABORTED''
         then Error ''Request timeout: Agentforce is taking too long to respond''
         else if response_status error = Some 401
         then Error ''Authentication expired: Please refresh and try again''
         else if response_status error = Some 403
         then Error ''Access denied: You don't have permission to use this agent''
         else if response_status error = Some 404
         then Error ''Session not found: Please refresh and try again''
         else if response_status error = Some 429
         then Error ''Rate limit exceeded: Please wait a moment and try again''
         else if (case response_status error of Some st \<Rightarrow> st \<ge> 500 | None \<Rightarrow> False)
         then Error ''Agentforce service is temporarily unavailable. Please try again in a few moments''
         else Error (''Failed to send message: '' @
                (if truthy (response_statusText error) then the (response_statusText error)
                 else ''Network error'')))
      else error)"

definition sendStreamingMessage ::
  "environment \<Rightarrow> string \<Rightarrow> js_number \<Rightarrow> string option \<Rightarrow> AuthMode \<Rightarrow> json_object promise" where
  "sendStreamingMessage env text sequenceId agentId authMode s =
     (case sendStreamingMessage_try env text sequenceId agentId authMode s of
        (Inl error, s') \<Rightarrow> (Inl (sendStreamingMessage_catch error), s')
      | (Inr d, s') \<Rightarrow> (Inr d, s'))"

section \<open>The base URL of a request\<close>

text \<open>The requests sent between an earlier and a later state.\<close>

definition requests_between :: "state \<Rightarrow> state \<Rightarrow> http_request list" where
  "requests_between s s' = drop (length (http_log s)) (http_log s')"

text \<open>\<^verbatim>\<open>String.prototype.startsWith\<close>.\<close>

definition startsWith :: "string \<Rightarrow> string \<Rightarrow> bool" where
  "startsWith u base = (take (length base) u = base)"

text \<open>
  A request goes to the base URL of its mode: in delegated mode its URL starts with the
  fixed host; in direct mode it is the token request, or its URL starts with the instance
  URL of the credentials that the token cache holds.
\<close>

definition uses_base_url :: "environment \<Rightarrow> AuthMode \<Rightarrow> state \<Rightarrow> http_request \<Rightarrow> bool" where
  "uses_base_url env mode s q =
     (case mode of
        Applink \<Rightarrow> startsWith (url q) ''https://api.salesforce.com''
      | Direct \<Rightarrow>
          q = token_request (config env)
          \<or> (case token_cache s of
                Some c \<Rightarrow> startsWith (url q) (apiInstanceUrl c)
              | None \<Rightarrow> False))"

text \<open>
  From one state to a later one: requests were only added, each of them goes to the base
  URL of the mode as the later state has it, and a cached token stayed as it was.
\<close>

definition base_url_kept :: "environment \<Rightarrow> AuthMode \<Rightarrow> state \<Rightarrow> state \<Rightarrow> bool" where
  "base_url_kept env mode s s' =
     ((\<exists>new. http_log s' = http_log s @ new \<and> (\<forall>q \<in> set new. uses_base_url env mode s' q))
      \<and> (\<forall>c. token_cache s = Some c \<longrightarrow> token_cache s' = Some c))"

text \<open>The credentials in hand are those of the mode in the given state.\<close>

definition credentials_of_mode :: "AuthMode \<Rightarrow> state \<Rightarrow> AuthCredentials \<Rightarrow> bool" where
  "credentials_of_mode mode s c =
     (case mode of
        Applink \<Rightarrow> apiInstanceUrl c = ''https://api.salesforce.com''
      | Direct \<Rightarrow> token_cache s = Some c)"

section \<open>Concrete scenarios\<close>

text \<open>
  The configuration of the repository's test suite, an empty starting state, and a
  remote side that answers each kind of request in a fixed way: the token request with
  a token and an instance URL, the session request with a session, the message request
  with a stream, the end request with an empty object.
\<close>

definition test_config :: configuration where
  "test_config =
     \<lparr>SF_MY_DOMAIN_URL = ''https://test-org.my.salesforce.com'',
      SF_CONSUMER_KEY = ''test-client-id'',
      SF_CONSUMER_SECRET = ''test-client-secret'',
      SF_AGENT_ID = Some ''test-agent-id'',
      SF_JWT_CONNECTION_NAME = ''test-jwt-connection''\<rparr>"

definition initial_state :: state where
  "initial_state =
     \<lparr>http_log = [], broker_log = [], timers = [], uuids_drawn = 0,
      token_cache = None, session_cache = []\<rparr>"

definition test_remote :: "http_request list \<Rightarrow> http_request \<Rightarrow> http_outcome" where
  "test_remote history req =
     (case data req of
        FormParams ps \<Rightarrow> Resolve [(''access_token'', ''direct-token''),
                                  (''api_instance_url'', ''https://custom-api.salesforce.com'')]
      | SessionPayload k e \<Rightarrow> Resolve [(''sessionId'', ''session-123'')]
      | MessagePayload n txt \<Rightarrow> Resolve [(''stream'', ''stream-data'')]
      | NoPayload \<Rightarrow> Resolve [])"

definition test_env :: environment where
  "test_env =
     \<lparr>config = test_config,
      remote = test_remote,
      broker = (\<lambda>history name. Authorization (Some ''applink-token'')
                                  (Some ''https://test-org.my.salesforce.com'')),
      randomUUID = (\<lambda>n. ''uuid-'' @ decimal n)\<rparr>"

text \<open>Every request is rejected with status 401.\<close>

definition env_401 :: environment where
  "env_401 = test_env\<lparr>remote := (\<lambda>history req. Reject None (Some (401, ''Unauthorized'')))\<rparr>"

text \<open>The first two requests are rejected with status 503, later ones are answered.\<close>

definition env_503_twice :: environment where
  "env_503_twice =
     test_env\<lparr>remote := (\<lambda>history req.
        if length history < 2 then Reject None (Some (503, ''Service Unavailable''))
        else test_remote history req)\<rparr>"


text \<open>The end request is rejected with status 404.\<close>

definition env_delete_404 :: environment where
  "env_delete_404 =
     test_env\<lparr>remote := (\<lambda>history req.
        if data req = NoPayload then Reject None (Some (404, ''Not Found''))
        else test_remote history req)\<rparr>"



section \<open>Properties\<close>

lemmas test_bed_defs = test_config_def initial_state_def test_remote_def test_env_def

lemmas model_defs = newSession_def retryOperation_def newSession_operation_def newSession_try_def
  newSession_catch_def getCredentials_def getTokenFromAppLink_def getTokenFromAppLink_try_def
  getTokenFromAppLink_catch_def getToken_def getToken_try_def getToken_catch_def axios_def
  session_request_def token_request_def truthy_def isAxiosError_def error_code_def response_status_def
  response_statusText_def setTimeout_def baseUrl_def getAuthEndpoint_def
  getSession_def endSession_def endSession_try_def end_request_def revalidateTag_session_def
  getSessionEndpoint_def getStreamingEndpoint_def stream_request_def sendStreamingMessage_def
  sendStreamingMessage_try_def sendStreamingMessage_catch_def less_than_zero_def trim_def is_whitespace_def
  sessionId_of_def

subsection \<open>The retry utility with two retries\<close>

lemma retry_loop_last:
  "retry_loop operation maxRetries delayMs maxRetries lastError s =
     (case operation s of
        (Inr v, s') \<Rightarrow> (Inr v, s')
      | (Inl error, s') \<Rightarrow> (Inl error, s'))"
  by (subst retry_loop.simps) (simp split: prod.splits sum.splits)

lemma retry_loop_last_id:
  "retry_loop operation maxRetries delayMs maxRetries lastError s = operation s"
  unfolding retry_loop_last by (simp split: prod.splits sum.splits)

lemma retryOperation_2:
  "retryOperation operation 2 delayMs s =
     (case operation s of
        (Inr v, s1) \<Rightarrow> (Inr v, s1)
      | (Inl e1, s1) \<Rightarrow>
          if isAxiosError e1 \<and> (case response_status e1 of Some st \<Rightarrow> st \<noteq> 0 \<and> st < 500 | None \<Rightarrow> False)
          then (Inl e1, s1)
          else
            (case operation (setTimeout (delayMs * 1) s1) of
               (Inr v, s2) \<Rightarrow> (Inr v, s2)
             | (Inl e2, s2) \<Rightarrow>
                 if isAxiosError e2 \<and> (case response_status e2 of Some st \<Rightarrow> st \<noteq> 0 \<and> st < 500 | None \<Rightarrow> False)
                 then (Inl e2, s2)
                 else operation (setTimeout (delayMs * 2) s2)))"
proof -
  have two: "retry_loop operation 2 delayMs (Suc (Suc 0)) le t = operation t" for le t
    using retry_loop_last_id [of operation 2 delayMs le t] by (simp add: numeral_2_eq_2)
  have one: "retry_loop operation 2 delayMs (Suc 0) le t =
     (case operation t of
        (Inr v, s') \<Rightarrow> (Inr v, s')
      | (Inl error, s') \<Rightarrow>
          if isAxiosError error
             \<and> (case response_status error of Some st \<Rightarrow> st \<noteq> 0 \<and> st < 500 | None \<Rightarrow> False)
          then (Inl error, s')
          else operation (setTimeout (delayMs * 2) s'))" for le t
    by (subst retry_loop.simps) (simp add: two mult_2_right split: prod.splits sum.splits)
  have zero: "retry_loop operation 2 delayMs 0 le t =
     (case operation t of
        (Inr v, s') \<Rightarrow> (Inr v, s')
      | (Inl error, s') \<Rightarrow>
          if isAxiosError error
             \<and> (case response_status error of Some st \<Rightarrow> st \<noteq> 0 \<and> st < 500 | None \<Rightarrow> False)
          then (Inl error, s')
          else retry_loop operation 2 delayMs (Suc 0) (Some error) (setTimeout (delayMs * 1) s'))" for le t
    by (subst retry_loop.simps) (simp split: prod.splits sum.splits)
  show ?thesis
    unfolding retryOperation_def zero one ..
qed

text \<open>
  Handed an axios error with a 4xx status, the utility throws it at once: the operation
  runs once and no delay is waited for.
\<close>

lemma retryOperation_client_error:
  assumes "operation s = (Inl (AxiosError code (Some (status, statusText))), s1)"
      and "400 \<le> status" and "status < 500"
  shows "retryOperation operation 2 delayMs s
           = (Inl (AxiosError code (Some (status, statusText))), s1)"
  using assms by (simp add: retryOperation_2 isAxiosError_def response_status_def)

subsection \<open>Errors of the credential providers and of one attempt\<close>

lemma getToken_catch_Error: "\<exists>msg. getToken_catch e = Error msg"
  by (simp add: getToken_catch_def)

lemma getTokenFromAppLink_catch_Error: "\<exists>msg. getTokenFromAppLink_catch e = Error msg"
  by (cases e) (simp_all add: getTokenFromAppLink_catch_def)

lemma getCredentials_error:
  assumes "getCredentials env mode s = (Inl e, s')"
  shows "\<exists>msg. e = Error msg"
proof (cases mode)
  case Direct
  with assms show ?thesis
    using getToken_catch_Error
    by (auto simp: getCredentials_def getToken_def split: option.splits prod.splits sum.splits)
next
  case Applink
  with assms show ?thesis
    using getTokenFromAppLink_catch_Error
    by (auto simp: getCredentials_def getTokenFromAppLink_def split: prod.splits sum.splits)
qed

lemma newSession_catch_axios: "isAxiosError e \<Longrightarrow> \<exists>msg. newSession_catch e = Error msg"
  by (simp add: newSession_catch_def)

lemma newSession_catch_plain: "newSession_catch (Error msg) = Error msg"
  by (simp add: newSession_catch_def isAxiosError_def)

lemma axios_error: "axios env req s = (Inl e, s') \<Longrightarrow> isAxiosError e"
  by (auto simp: axios_def isAxiosError_def Let_def split: http_outcome.splits)

lemma newSession_try_error:
  assumes "newSession_try env agentId authMode s = (Inl e, s')"
  shows "isAxiosError e \<or> (\<exists>msg. e = Error msg)"
  using assms getCredentials_error axios_error
  unfolding newSession_try_def Let_def
  by (fastforce split: prod.splits sum.splits if_splits)

lemma newSession_operation_error:
  assumes "newSession_operation env agentId authMode s = (Inl e, s')"
  shows "\<exists>msg. e = Error msg"
proof -
  from assms obtain e0 where t: "newSession_try env agentId authMode s = (Inl e0, s')"
    and e: "e = newSession_catch e0"
    by (auto simp: newSession_operation_def split: prod.splits sum.splits)
  from newSession_try_error [OF t] show ?thesis
    using e newSession_catch_axios newSession_catch_plain by auto
qed

lemma newSession_operation_not_fatal:
  assumes "newSession_operation env agentId authMode s = (Inl e, s')"
  shows "\<not> isAxiosError e"
  using newSession_operation_error [OF assms] by (auto simp: isAxiosError_def)

text \<open>The three attempts of \<^verbatim>\<open>newSession\<close>.\<close>

lemma newSession_attempts:
  "newSession env agentId authMode s =
     (case newSession_operation env agentId authMode s of
        (Inr v, s1) \<Rightarrow> (Inr v, s1)
      | (Inl e1, s1) \<Rightarrow>
          (case newSession_operation env agentId authMode (setTimeout 1500 s1) of
             (Inr v, s2) \<Rightarrow> (Inr v, s2)
           | (Inl e2, s2) \<Rightarrow> newSession_operation env agentId authMode (setTimeout 3000 s2)))"
  unfolding newSession_def retryOperation_2
  by (auto split: prod.splits sum.splits dest: newSession_operation_not_fatal)


subsection \<open>What one attempt leaves untouched\<close>

lemma setTimeout_simps:
  "timers (setTimeout ms s) = timers s @ [ms]"
  "http_log (setTimeout ms s) = http_log s"
  "broker_log (setTimeout ms s) = broker_log s"
  "uuids_drawn (setTimeout ms s) = uuids_drawn s"
  "token_cache (setTimeout ms s) = token_cache s"
  "session_cache (setTimeout ms s) = session_cache s"
  by (simp_all add: setTimeout_def)

lemma getCredentials_effect:
  assumes "getCredentials env mode s = (r, s')"
  shows "timers s' = timers s \<and> uuids_drawn s' = uuids_drawn s
         \<and> session_cache s' = session_cache s
         \<and> (\<exists>new. http_log s' = http_log s @ new \<and> set new \<subseteq> {token_request (config env)})"
proof (cases mode)
  case Direct
  with assms show ?thesis
    by (auto simp: getCredentials_def getToken_def getToken_try_def axios_def Let_def
             split: option.splits prod.splits sum.splits http_outcome.splits if_splits)
next
  case Applink
  with assms show ?thesis
    by (auto simp: getCredentials_def getTokenFromAppLink_def getTokenFromAppLink_try_def Let_def
             split: prod.splits sum.splits broker_outcome.splits if_splits)
qed

lemma newSession_operation_timers:
  assumes "newSession_operation env agentId authMode s = (r, s')"
  shows "timers s' = timers s"
  using assms getCredentials_effect [of env authMode s]
  by (auto simp: newSession_operation_def newSession_try_def axios_def Let_def
           split: prod.splits sum.splits http_outcome.splits if_splits)


subsection \<open>The attempts of session creation\<close>

text \<open>A session request answered with a 5xx status makes the attempt fail.\<close>

lemma newSession_operation_5xx:
  assumes "getCredentials env authMode s = (Inr c, s1)"
      and "truthy agentId"
      and "remote env (http_log s1) (session_request (config env) c (the agentId)
              (randomUUID env (uuids_drawn s1))) = Reject code (Some (status, statusText))"
      and "500 \<le> status" and "code \<noteq> Some ''ECONNABORTED''"
  shows "fst (newSession_operation env agentId authMode s)
           = Inl (Error ''Session creation failed: Agentforce service temporarily unavailable'')"
  using assms
  by (simp add: newSession_operation_def newSession_try_def newSession_catch_def axios_def Let_def
                isAxiosError_def error_code_def response_status_def)

text \<open>Every failure of \<^verbatim>\<open>newSession\<close> comes after the third attempt.\<close>

lemma newSession_failure_after_three_attempts:
  assumes "newSession env agentId authMode s = (Inl e, s')"
  shows "timers s' = timers s @ [1500, 3000]"
proof -
  let ?op = "newSession_operation env agentId authMode"
  obtain r1 s1 where a1: "?op s = (r1, s1)" by (cases "?op s")
  obtain r2 s2 where a2: "?op (setTimeout 1500 s1) = (r2, s2)" by (cases "?op (setTimeout 1500 s1)")
  obtain r3 s3 where a3: "?op (setTimeout 3000 s2) = (r3, s3)" by (cases "?op (setTimeout 3000 s2)")
  from assms a1 a2 a3 have "s' = s3"
    by (auto simp: newSession_attempts split: sum.splits)
  with newSession_operation_timers [OF a1] newSession_operation_timers [OF a2]
       newSession_operation_timers [OF a3]
  show ?thesis by (simp add: setTimeout_simps)
qed

text \<open>
  Claim C4. When the first two attempts of \<^verbatim>\<open>newSession\<close> fail (with a 5xx response, or in
  any other way) the utility waits 1500 ms times the number of the retry, that is 1500 ms
  and then 3000 ms, and the outcome of \<^verbatim>\<open>newSession\<close> is the outcome of the third attempt:
  its value when it succeeds, its error when it fails. No fourth attempt is made.
\<close>

theorem newSession_third_attempt:
  assumes "newSession_operation env agentId authMode s = (Inl e1, s1)"
      and "newSession_operation env agentId authMode (setTimeout (1500 * 1) s1) = (Inl e2, s2)"
      and "newSession_operation env agentId authMode (setTimeout (1500 * 2) s2) = (r3, s3)"
    shows "newSession env agentId authMode s = (r3, s3) \<and> timers s3 = timers s @ [1500, 3000]"
proof -
  have "newSession env agentId authMode s = (r3, s3)"
    using assms by (simp add: newSession_attempts)
  moreover have "timers s1 = timers s"
    using assms(1) by (rule newSession_operation_timers)
  moreover have "timers s2 = timers s1 @ [1500]"
    using newSession_operation_timers [OF assms(2)] by (simp add: setTimeout_def)
  moreover have "timers s3 = timers s2 @ [3000]"
    using newSession_operation_timers [OF assms(3)] by (simp add: setTimeout_def)
  ultimately show ?thesis by simp
qed

text \<open>The remote side answers 503 twice and then creates the session.\<close>

theorem newSession_third_attempt_witness:
  "fst (newSession_operation env_503_twice (Some ''test-agent'') Applink initial_state)
     = Inl (Error ''Session creation failed: Agentforce service temporarily unavailable'')
   \<and> fst (newSession env_503_twice (Some ''test-agent'') Applink initial_state)
     = Inr [(''sessionId'', ''session-123'')]
   \<and> timers (snd (newSession env_503_twice (Some ''test-agent'') Applink initial_state))
     = [1500, 3000]"
proof -
  let ?op = "newSession_operation env_503_twice (Some ''test-agent'') Applink"
  let ?unavailable = "Error ''Session creation failed: Agentforce service temporarily unavailable''"
  define s1 where "s1 = snd (?op initial_state)"
  define s2 where "s2 = snd (?op (setTimeout (1500 * 1) s1))"
  define s3 where "s3 = snd (?op (setTimeout (1500 * 2) s2))"
  have f1: "fst (?op initial_state) = Inl ?unavailable"
    by (simp add: model_defs test_bed_defs env_503_twice_def)
  have f2: "fst (?op (setTimeout (1500 * 1) s1)) = Inl ?unavailable"
    unfolding s1_def by (simp add: model_defs test_bed_defs env_503_twice_def)
  have f3: "fst (?op (setTimeout (1500 * 2) s2)) = Inr [(''sessionId'', ''session-123'')]"
    unfolding s2_def s1_def by (simp add: model_defs test_bed_defs env_503_twice_def)
  have h1: "?op initial_state = (Inl ?unavailable, s1)"
    using f1 by (simp add: s1_def prod_eq_iff)
  have h2: "?op (setTimeout (1500 * 1) s1) = (Inl ?unavailable, s2)"
    using f2 by (simp add: s2_def prod_eq_iff)
  have h3: "?op (setTimeout (1500 * 2) s2) = (Inr [(''sessionId'', ''session-123'')], s3)"
    using f3 by (simp add: s3_def prod_eq_iff)
  from newSession_third_attempt [OF h1 h2 h3] f1 show ?thesis
    by (simp add: initial_state_def)
qed

text \<open>
  Claim C1. A failure with a 4xx status inside the retried body is to be raised at once,
  after one invocation. The utility tests for an axios error with a status below 500,
  but the \<^verbatim>\<open>catch\<close> block of the body has already replaced the axios error by a plain
  \<^verbatim>\<open>Error\<close>: with a remote side that answers 401 to the session request, the body runs
  three times, three requests are sent and both delays are waited for.
\<close>

theorem newSession_401_three_attempts:
  "fst (newSession env_401 (Some ''test-agent'') Applink initial_state)
     = Inl (Error ''Session creation failed: Authentication expired'')
   \<and> length (http_log (snd (newSession env_401 (Some ''test-agent'') Applink initial_state))) = 3
   \<and> timers (snd (newSession env_401 (Some ''test-agent'') Applink initial_state)) = [1500, 3000]"
  by (simp add: model_defs retry_loop.simps test_bed_defs env_401_def)

subsection \<open>A missing agent id\<close>





subsection \<open>Validation of a message\<close>

text \<open>
  Claim C5. A text that is empty or blank after trimming, or a negative sequence id,
  makes \<^verbatim>\<open>sendStreamingMessage\<close> throw the validation error unchanged and leave the state
  as it was: no credential lookup, no session lookup, no request, no delay.
\<close>

theorem sendStreamingMessage_rejects_invalid_input:
  assumes "text = [] \<or> trim text = [] \<or> less_than_zero sequenceId"
  shows "sendStreamingMessage env text sequenceId agentId authMode s =
           (Inl (Error (if text = [] \<or> trim text = [] then ''Message text cannot be empty''
                        else ''Invalid sequence ID'')), s)"
  using assms
  by (auto simp: sendStreamingMessage_def sendStreamingMessage_try_def
                 sendStreamingMessage_catch_def isAxiosError_def)

theorem sendStreamingMessage_rejects_invalid_input_witness:
  "sendStreamingMessage test_env [CHR 0x20, CHR 0x09, CHR 0x0A] (Finite 1) (Some ''agent-id'') Applink initial_state
     = (Inl (Error ''Message text cannot be empty''), initial_state)
   \<and> sendStreamingMessage test_env ''Hello'' (Finite (- 1)) (Some ''agent-id'') Applink initial_state
     = (Inl (Error ''Invalid sequence ID''), initial_state)"
proof -
  have h1: "[CHR 0x20, CHR 0x09, CHR 0x0A] = [] \<or> trim [CHR 0x20, CHR 0x09, CHR 0x0A] = [] \<or> less_than_zero (Finite 1)"
    by (simp add: trim_def is_whitespace_def)
  have h2: "''Hello'' = [] \<or> trim ''Hello'' = [] \<or> less_than_zero (Finite (- 1))"
    by (simp add: less_than_zero_def)
  have t1: "trim [CHR 0x20, CHR 0x09, CHR 0x0A] = []"
    by (simp add: trim_def is_whitespace_def)
  have t2: "trim ''Hello'' \<noteq> []"
    by (simp add: trim_def is_whitespace_def)
  from sendStreamingMessage_rejects_invalid_input [OF h1, of test_env "Some ''agent-id''" Applink initial_state]
       sendStreamingMessage_rejects_invalid_input [OF h2, of test_env "Some ''agent-id''" Applink initial_state]
       t1 t2
  show ?thesis by simp
qed

subsection \<open>A token response without its fields\<close>





subsection \<open>Ending a session never throws\<close>

text \<open>
  Claim C9. \<^verbatim>\<open>endSession\<close> always returns: it never throws. When credential resolution
  fails, when session resolution fails, or when the end request is rejected, with
  status 404 or in any other way, the result is \<^verbatim>\<open>null\<close>.
\<close>

theorem endSession_never_throws:
  "\<exists>result s'. endSession env authMode s = (Inr result, s')
     \<and> (\<forall>e s1. getCredentials env authMode s = (Inl e, s1) \<longrightarrow> result = None)
     \<and> (\<forall>c s1 e s2. getCredentials env authMode s = (Inr c, s1)
           \<longrightarrow> getSession env None authMode s1 = (Inl e, s2) \<longrightarrow> result = None)
     \<and> (\<forall>c s1 session s2 code response. getCredentials env authMode s = (Inr c, s1)
           \<longrightarrow> getSession env None authMode s1 = (Inr session, s2)
           \<longrightarrow> remote env (http_log s2) (end_request c (sessionId_of session)) = Reject code response
           \<longrightarrow> result = None)"
  by (auto simp: endSession_def endSession_try_def axios_def Let_def
           split: prod.splits sum.splits http_outcome.splits)

theorem endSession_never_throws_witness:
  "getCredentials env_delete_404 Applink initial_state =
     (Inr \<lparr>accessToken = ''applink-token'', apiInstanceUrl = ''https://api.salesforce.com''\<rparr>,
      initial_state\<lparr>broker_log := [''test-jwt-connection'']\<rparr>)
   \<and> fst (getSession env_delete_404 None Applink (initial_state\<lparr>broker_log := [''test-jwt-connection'']\<rparr>))
       = Inr [(''sessionId'', ''session-123'')]
   \<and> fst (endSession env_delete_404 Applink initial_state) = Inr None"
proof -
  let ?c = "\<lparr>accessToken = ''applink-token'', apiInstanceUrl = ''https://api.salesforce.com''\<rparr>"
  let ?s1 = "initial_state\<lparr>broker_log := [''test-jwt-connection'']\<rparr>"
  let ?session = "[(''sessionId'', ''session-123'')]"
  define s2 where "s2 = snd (getSession env_delete_404 None Applink ?s1)"
  have h1: "getCredentials env_delete_404 Applink initial_state = (Inr ?c, ?s1)"
    by (simp add: model_defs test_bed_defs env_delete_404_def)
  have f2: "fst (getSession env_delete_404 None Applink ?s1) = Inr ?session"
    by (simp add: model_defs retry_loop.simps test_bed_defs env_delete_404_def)
  have h2: "getSession env_delete_404 None Applink ?s1 = (Inr ?session, s2)"
    using f2 by (simp add: s2_def prod_eq_iff)
  have h3: "remote env_delete_404 (http_log s2) (end_request ?c (sessionId_of ?session))
              = Reject None (Some (404, ''Not Found''))"
    by (simp add: test_bed_defs env_delete_404_def end_request_def)
  from endSession_never_throws [of env_delete_404 Applink initial_state] h1 h2 h3 f2
  show ?thesis by fastforce
qed

subsection \<open>The requests of session creation\<close>







subsection \<open>Ending a session: the cache and the requests\<close>








subsection \<open>Which sequence ids are rejected\<close>












subsection \<open>The base URL of every request\<close>

lemma base_url_kept_refl: "base_url_kept env mode s s"
  by (simp add: base_url_kept_def)

lemma uses_base_url_mono:
  assumes "uses_base_url env mode s q" and "\<forall>c. token_cache s = Some c \<longrightarrow> token_cache s' = Some c"
  shows "uses_base_url env mode s' q"
  using assms by (auto simp: uses_base_url_def split: AuthMode.splits option.splits)

lemma base_url_kept_trans:
  assumes "base_url_kept env mode s s'" and "base_url_kept env mode s' s''"
  shows "base_url_kept env mode s s''"
proof -
  from assms(1) obtain new1 where
    l1: "http_log s' = http_log s @ new1" and u1: "\<forall>q \<in> set new1. uses_base_url env mode s' q"
    and c1: "\<forall>c. token_cache s = Some c \<longrightarrow> token_cache s' = Some c"
    by (auto simp: base_url_kept_def)
  from assms(2) obtain new2 where
    l2: "http_log s'' = http_log s' @ new2" and u2: "\<forall>q \<in> set new2. uses_base_url env mode s'' q"
    and c2: "\<forall>c. token_cache s' = Some c \<longrightarrow> token_cache s'' = Some c"
    by (auto simp: base_url_kept_def)
  from u1 c2 have "\<forall>q \<in> set new1. uses_base_url env mode s'' q"
    using uses_base_url_mono by blast
  with u2 have "\<forall>q \<in> set (new1 @ new2). uses_base_url env mode s'' q" by auto
  moreover have "http_log s'' = http_log s @ (new1 @ new2)" by (simp add: l1 l2)
  moreover have "\<forall>c. token_cache s = Some c \<longrightarrow> token_cache s'' = Some c"
    using c1 c2 by blast
  ultimately show ?thesis unfolding base_url_kept_def by blast
qed

lemma base_url_kept_setTimeout: "base_url_kept env mode s (setTimeout ms s)"
  by (simp add: base_url_kept_def setTimeout_def)

lemma credentials_of_mode_kept:
  assumes "credentials_of_mode mode s c" and "base_url_kept env mode s s'"
  shows "credentials_of_mode mode s' c"
  using assms by (auto simp: credentials_of_mode_def base_url_kept_def split: AuthMode.splits)

lemma getCredentials_base_url:
  assumes "getCredentials env mode s = (r, s')"
  shows "base_url_kept env mode s s'"
proof (cases mode)
  case Direct
  with assms show ?thesis
    by (auto simp: getCredentials_def getToken_def getToken_try_def axios_def Let_def
                   base_url_kept_def uses_base_url_def
             split: option.splits prod.splits sum.splits http_outcome.splits if_splits)
next
  case Applink
  with assms show ?thesis
    by (auto simp: getCredentials_def getTokenFromAppLink_def getTokenFromAppLink_try_def Let_def
                   base_url_kept_def
             split: prod.splits sum.splits broker_outcome.splits if_splits)
qed

lemma getCredentials_of_mode:
  assumes "getCredentials env mode s = (Inr c, s')"
  shows "credentials_of_mode mode s' c"
proof (cases mode)
  case Direct
  with assms show ?thesis
    by (auto simp: getCredentials_def getToken_def credentials_of_mode_def
             split: option.splits prod.splits sum.splits)
next
  case Applink
  with assms show ?thesis
    by (auto simp: getCredentials_def getTokenFromAppLink_def getTokenFromAppLink_try_def Let_def
                   credentials_of_mode_def
             split: prod.splits sum.splits broker_outcome.splits if_splits)
qed

lemma axios_base_url:
  assumes "credentials_of_mode mode s c" and "startsWith (url q) (apiInstanceUrl c)"
      and "axios env q s = (r, s')"
    shows "base_url_kept env mode s s'"
  using assms
  by (auto simp: axios_def Let_def base_url_kept_def uses_base_url_def credentials_of_mode_def
           split: http_outcome.splits AuthMode.splits)

lemma request_urls:
  "startsWith (url (session_request cfg c agent uuid)) (apiInstanceUrl c)"
  "startsWith (url (end_request c sid)) (apiInstanceUrl c)"
  "startsWith (url (stream_request c sid n text)) (apiInstanceUrl c)"
  by (simp_all add: session_request_def end_request_def stream_request_def startsWith_def)

lemma base_url_kept_uuid:
  "base_url_kept env mode s (s\<lparr>uuids_drawn := n\<rparr>)"
  by (simp add: base_url_kept_def uses_base_url_def)

lemma credentials_of_mode_uuid:
  "credentials_of_mode mode (s\<lparr>uuids_drawn := n\<rparr>) c = credentials_of_mode mode s c"
  by (cases mode) (simp_all add: credentials_of_mode_def)

lemma newSession_operation_base_url:
  assumes "newSession_operation env agentId mode s = (r, s')"
  shows "base_url_kept env mode s s'"
proof -
  obtain r1 s1 where g: "getCredentials env mode s = (r1, s1)"
    by (cases "getCredentials env mode s")
  note k1 = getCredentials_base_url [OF g]
  show ?thesis
  proof (cases r1)
    case (Inl e)
    with assms g k1 show ?thesis
      by (auto simp: newSession_operation_def newSession_try_def)
  next
    case (Inr c)
    let ?s2 = "s1\<lparr>uuids_drawn := Suc (uuids_drawn s1)\<rparr>"
    let ?agent = "if truthy agentId then agentId else SF_AGENT_ID (config env)"
    let ?q = "session_request (config env) c (the ?agent) (randomUUID env (uuids_drawn s1))"
    from g Inr have cm: "credentials_of_mode mode ?s2 c"
      using getCredentials_of_mode by (simp add: credentials_of_mode_uuid)
    have k2: "base_url_kept env mode s ?s2"
      using k1 base_url_kept_uuid base_url_kept_trans by blast
    show ?thesis
    proof (cases "truthy ?agent")
      case False
      with assms g Inr k2 show ?thesis
        by (auto simp: newSession_operation_def newSession_try_def Let_def)
    next
      case True
      obtain r3 s3 where a: "axios env ?q ?s2 = (r3, s3)" by (cases "axios env ?q ?s2")
      from axios_base_url [OF cm request_urls(1) a] k2
      have k3: "base_url_kept env mode s s3" using base_url_kept_trans by blast
      from assms g Inr True a have "s' = s3"
        by (auto simp: newSession_operation_def newSession_try_def Let_def
                 split: sum.splits if_splits)
      with k3 show ?thesis by simp
    qed
  qed
qed

lemma newSession_base_url:
  assumes "newSession env agentId mode s = (r, s')"
  shows "base_url_kept env mode s s'"
proof -
  let ?op = "newSession_operation env agentId mode"
  obtain r1 s1 where a1: "?op s = (r1, s1)" by (cases "?op s")
  obtain r2 s2 where a2: "?op (setTimeout 1500 s1) = (r2, s2)" by (cases "?op (setTimeout 1500 s1)")
  obtain r3 s3 where a3: "?op (setTimeout 3000 s2) = (r3, s3)" by (cases "?op (setTimeout 3000 s2)")
  have k1: "base_url_kept env mode s s1"
    using a1 by (rule newSession_operation_base_url)
  have k2: "base_url_kept env mode s s2"
    using k1 base_url_kept_setTimeout [of env mode s1 1500] newSession_operation_base_url [OF a2]
          base_url_kept_trans by blast
  have k3: "base_url_kept env mode s s3"
    using k2 base_url_kept_setTimeout [of env mode s2 3000] newSession_operation_base_url [OF a3]
          base_url_kept_trans by blast
  from assms a1 a2 a3 have "s' = s1 \<or> s' = s2 \<or> s' = s3"
    by (auto simp: newSession_attempts split: sum.splits)
  with k1 k2 k3 show ?thesis by auto
qed

lemma base_url_kept_session_cache:
  "base_url_kept env mode s (s\<lparr>session_cache := cache\<rparr>)"
  by (simp add: base_url_kept_def uses_base_url_def)

lemma getSession_base_url:
  assumes "getSession env agentId mode s = (r, s')"
  shows "base_url_kept env mode s s'"
proof (cases "map_of (session_cache s) (agentId, mode)")
  case (Some cached)
  with assms show ?thesis by (simp add: getSession_def base_url_kept_refl)
next
  case None
  obtain r0 s0 where n: "newSession env agentId mode s = (r0, s0)"
    by (cases "newSession env agentId mode s")
  note k = newSession_base_url [OF n]
  from assms None n have "s' = s0 \<or> (\<exists>cache. s' = s0\<lparr>session_cache := cache\<rparr>)"
    by (auto simp: getSession_def split: sum.splits)
  with k show ?thesis
    using base_url_kept_session_cache base_url_kept_trans by blast
qed

lemma endSession_base_url:
  assumes "endSession env mode s = (r, s')"
  shows "base_url_kept env mode s s'"
proof -
  obtain r1 s1 where g1: "getCredentials env mode s = (r1, s1)"
    by (cases "getCredentials env mode s")
  note k1 = getCredentials_base_url [OF g1]
  show ?thesis
  proof (cases r1)
    case (Inl e)
    with assms g1 k1 show ?thesis
      by (auto simp: endSession_def endSession_try_def)
  next
    case c: (Inr c)
    obtain r2 s2 where g2: "getSession env None mode s1 = (r2, s2)"
      by (cases "getSession env None mode s1")
    note k12 = getSession_base_url [OF g2]
    from k1 k12 have k2: "base_url_kept env mode s s2" by (rule base_url_kept_trans)
    show ?thesis
    proof (cases r2)
      case (Inl e)
      with assms g1 c g2 k2 show ?thesis
        by (auto simp: endSession_def endSession_try_def)
    next
      case (Inr session)
      let ?q = "end_request c (sessionId_of session)"
      obtain r3 s3 where a: "axios env ?q s2 = (r3, s3)" by (cases "axios env ?q s2")
      from g1 c have "credentials_of_mode mode s1 c" using getCredentials_of_mode by simp
      then have "credentials_of_mode mode s2 c" using k12 by (rule credentials_of_mode_kept)
      from axios_base_url [OF this request_urls(2) a] k2
      have k3: "base_url_kept env mode s s3" using base_url_kept_trans by blast
      from assms g1 c g2 Inr a have "s' = s3 \<or> s' = s3\<lparr>session_cache := []\<rparr>"
        by (auto simp: endSession_def endSession_try_def revalidateTag_session_def
                 split: sum.splits)
      with k3 show ?thesis
        using base_url_kept_session_cache base_url_kept_trans by blast
    qed
  qed
qed

lemma sendStreamingMessage_base_url:
  assumes "sendStreamingMessage env text sequenceId agentId mode s = (r, s')"
  shows "base_url_kept env mode s s'"
proof (cases "text = [] \<or> length (trim text) = 0 \<or> less_than_zero sequenceId")
  case True
  with assms have "s' = s"
    by (auto simp: sendStreamingMessage_def sendStreamingMessage_try_def split: if_splits)
  then show ?thesis by (simp add: base_url_kept_refl)
next
  case valid: False
  obtain r1 s1 where g1: "getCredentials env mode s = (r1, s1)"
    by (cases "getCredentials env mode s")
  note k1 = getCredentials_base_url [OF g1]
  show ?thesis
  proof (cases r1)
    case (Inl e)
    with assms valid g1 k1 show ?thesis
      by (auto simp: sendStreamingMessage_def sendStreamingMessage_try_def)
  next
    case c: (Inr c)
    obtain r2 s2 where g2: "getSession env agentId mode s1 = (r2, s2)"
      by (cases "getSession env agentId mode s1")
    note k12 = getSession_base_url [OF g2]
    from k1 k12 have k2: "base_url_kept env mode s s2" by (rule base_url_kept_trans)
    show ?thesis
    proof (cases r2)
      case (Inl e)
      with assms valid g1 c g2 k2 show ?thesis
        by (auto simp: sendStreamingMessage_def sendStreamingMessage_try_def)
    next
      case (Inr session)
      let ?q = "stream_request c (sessionId_of session) sequenceId text"
      obtain r3 s3 where a: "axios env ?q s2 = (r3, s3)" by (cases "axios env ?q s2")
      from g1 c have "credentials_of_mode mode s1 c" using getCredentials_of_mode by simp
      then have "credentials_of_mode mode s2 c" using k12 by (rule credentials_of_mode_kept)
      from axios_base_url [OF this request_urls(3) a] k2
      have k3: "base_url_kept env mode s s3" using base_url_kept_trans by blast
      from assms valid g1 c g2 Inr a have "s' = s3"
        by (auto simp: sendStreamingMessage_def sendStreamingMessage_try_def split: sum.splits)
      with k3 show ?thesis by simp
    qed
  qed
qed

lemma base_url_kept_requests:
  assumes "base_url_kept env mode s s'"
  shows "\<forall>q \<in> set (requests_between s s'). uses_base_url env mode s' q"
  using assms by (auto simp: base_url_kept_def requests_between_def)

text \<open>
  Claim C6. In delegated mode the credentials carry the fixed base URL
  \<^verbatim>\<open>https://api.salesforce.com\<close>, whatever domain URL the broker returns with the token.
  In direct mode the credentials are those of the token cache, and when the cache was
  empty their instance URL is the \<^verbatim>\<open>api_instance_url\<close> of the token response. Every
  request that \<^verbatim>\<open>newSession\<close>, \<^verbatim>\<open>endSession\<close> and \<^verbatim>\<open>sendStreamingMessage\<close> send, the token
  request of direct mode apart, has a URL that starts with that base URL.
\<close>

theorem base_url_by_mode:
  "(\<forall>token domainUrl.
      broker env (broker_log s) (SF_JWT_CONNECTION_NAME (config env)) = Authorization token domainUrl
      \<longrightarrow> truthy token
      \<longrightarrow> getCredentials env Applink s =
            (Inr \<lparr>accessToken = the token, apiInstanceUrl = ''https://api.salesforce.com''\<rparr>,
             s\<lparr>broker_log := broker_log s @ [SF_JWT_CONNECTION_NAME (config env)]\<rparr>))
   \<and> (\<forall>c s'. getCredentials env Applink s = (Inr c, s')
      \<longrightarrow> apiInstanceUrl c = ''https://api.salesforce.com'')
   \<and> (\<forall>c s'. getCredentials env Direct s = (Inr c, s')
      \<longrightarrow> token_cache s' = Some c
          \<and> (token_cache s = None
               \<longrightarrow> (\<exists>d. remote env (http_log s) (token_request (config env)) = Resolve d
                       \<and> map_of d ''api_instance_url'' = Some (apiInstanceUrl c))))
   \<and> (\<forall>r s'. newSession env agentId mode s = (r, s')
      \<longrightarrow> (\<forall>q \<in> set (requests_between s s'). uses_base_url env mode s' q))
   \<and> (\<forall>r s'. endSession env mode s = (r, s')
      \<longrightarrow> (\<forall>q \<in> set (requests_between s s'). uses_base_url env mode s' q))
   \<and> (\<forall>r s'. sendStreamingMessage env text sequenceId agentId mode s = (r, s')
      \<longrightarrow> (\<forall>q \<in> set (requests_between s s'). uses_base_url env mode s' q))"
proof (intro conjI allI impI)
  fix token domainUrl
  assume "broker env (broker_log s) (SF_JWT_CONNECTION_NAME (config env)) = Authorization token domainUrl"
    and "truthy token"
  then show "getCredentials env Applink s =
            (Inr \<lparr>accessToken = the token, apiInstanceUrl = ''https://api.salesforce.com''\<rparr>,
             s\<lparr>broker_log := broker_log s @ [SF_JWT_CONNECTION_NAME (config env)]\<rparr>)"
    by (simp add: getCredentials_def getTokenFromAppLink_def getTokenFromAppLink_try_def Let_def)
next
  fix c s'
  assume "getCredentials env Applink s = (Inr c, s')"
  from getCredentials_of_mode [OF this]
  show "apiInstanceUrl c = ''https://api.salesforce.com''"
    by (simp add: credentials_of_mode_def)
next
  fix c s'
  assume g: "getCredentials env Direct s = (Inr c, s')"
  from getCredentials_of_mode [OF g]
  show "token_cache s' = Some c"
    by (simp add: credentials_of_mode_def)
next
  fix c s'
  assume g: "getCredentials env Direct s = (Inr c, s')" and cold: "token_cache s = None"
  then show "\<exists>d. remote env (http_log s) (token_request (config env)) = Resolve d
                 \<and> map_of d ''api_instance_url'' = Some (apiInstanceUrl c)"
    by (auto simp: getCredentials_def getToken_def getToken_try_def axios_def Let_def truthy_def
             split: prod.splits sum.splits http_outcome.splits if_splits option.splits)
next
  fix r s'
  assume "newSession env agentId mode s = (r, s')"
  then have "base_url_kept env mode s s'" by (rule newSession_base_url)
  then show "\<forall>q \<in> set (requests_between s s'). uses_base_url env mode s' q"
    by (rule base_url_kept_requests)
next
  fix r s'
  assume "endSession env mode s = (r, s')"
  then have "base_url_kept env mode s s'" by (rule endSession_base_url)
  then show "\<forall>q \<in> set (requests_between s s'). uses_base_url env mode s' q"
    by (rule base_url_kept_requests)
next
  fix r s'
  assume "sendStreamingMessage env text sequenceId agentId mode s = (r, s')"
  then have "base_url_kept env mode s s'" by (rule sendStreamingMessage_base_url)
  then show "\<forall>q \<in> set (requests_between s s'). uses_base_url env mode s' q"
    by (rule base_url_kept_requests)
qed

text \<open>
  The broker returns a tenant domain and the token response an instance URL of its own:
  a message in delegated mode goes to the fixed host, a message in direct mode to the
  instance URL of the token response.
\<close>

theorem base_url_by_mode_witness:
  "broker test_env (broker_log initial_state) (SF_JWT_CONNECTION_NAME (config test_env))
     = Authorization (Some ''applink-token'') (Some ''https://test-org.my.salesforce.com'')
   \<and> fst (getCredentials test_env Applink initial_state)
     = Inr \<lparr>accessToken = ''applink-token'', apiInstanceUrl = ''https://api.salesforce.com''\<rparr>
   \<and> fst (getCredentials test_env Direct initial_state)
     = Inr \<lparr>accessToken = ''direct-token'', apiInstanceUrl = ''https://custom-api.salesforce.com''\<rparr>
   \<and> map url (requests_between initial_state
        (snd (sendStreamingMessage test_env ''Hello'' (Finite 1) (Some ''agent-id'') Applink initial_state)))
     = [''https://api.salesforce.com/einstein/ai-agent/v1/agents/agent-id/sessions'',
        ''https://api.salesforce.com/einstein/ai-agent/v1/sessions/session-123/messages/stream'']
   \<and> list_all (uses_base_url test_env Applink
        (snd (sendStreamingMessage test_env ''Hello'' (Finite 1) (Some ''agent-id'') Applink initial_state)))
        (requests_between initial_state
          (snd (sendStreamingMessage test_env ''Hello'' (Finite 1) (Some ''agent-id'') Applink initial_state)))
   \<and> map url (requests_between initial_state
        (snd (sendStreamingMessage test_env ''Hello'' (Finite 1) (Some ''agent-id'') Direct initial_state)))
     = [''https://test-org.my.salesforce.com/services/oauth2/token'',
        ''https://custom-api.salesforce.com/einstein/ai-agent/v1/agents/agent-id/sessions'',
        ''https://custom-api.salesforce.com/einstein/ai-agent/v1/sessions/session-123/messages/stream'']
   \<and> list_all (uses_base_url test_env Direct
        (snd (sendStreamingMessage test_env ''Hello'' (Finite 1) (Some ''agent-id'') Direct initial_state)))
        (requests_between initial_state
          (snd (sendStreamingMessage test_env ''Hello'' (Finite 1) (Some ''agent-id'') Direct initial_state)))"
proof -
  let ?a = "sendStreamingMessage test_env ''Hello'' (Finite 1) (Some ''agent-id'') Applink initial_state"
  let ?d = "sendStreamingMessage test_env ''Hello'' (Finite 1) (Some ''agent-id'') Direct initial_state"
  have b: "broker test_env (broker_log initial_state) (SF_JWT_CONNECTION_NAME (config test_env))
     = Authorization (Some ''applink-token'') (Some ''https://test-org.my.salesforce.com'')"
    by (simp add: test_bed_defs)
  have t: "truthy (Some ''applink-token'')" by (simp add: truthy_def)
  have g: "fst (getCredentials test_env Direct initial_state)
     = Inr \<lparr>accessToken = ''direct-token'', apiInstanceUrl = ''https://custom-api.salesforce.com''\<rparr>"
    by (simp add: model_defs test_bed_defs)
  have ua: "map url (requests_between initial_state (snd ?a))
     = [''https://api.salesforce.com/einstein/ai-agent/v1/agents/agent-id/sessions'',
        ''https://api.salesforce.com/einstein/ai-agent/v1/sessions/session-123/messages/stream'']"
    by (simp add: requests_between_def model_defs retry_loop.simps test_bed_defs)
  have ud: "map url (requests_between initial_state (snd ?d))
     = [''https://test-org.my.salesforce.com/services/oauth2/token'',
        ''https://custom-api.salesforce.com/einstein/ai-agent/v1/agents/agent-id/sessions'',
        ''https://custom-api.salesforce.com/einstein/ai-agent/v1/sessions/session-123/messages/stream'']"
    by (simp add: requests_between_def model_defs retry_loop.simps test_bed_defs)
  note A = base_url_by_mode [of test_env initial_state "Some ''agent-id''" Applink "''Hello''" "Finite 1"]
  note D = base_url_by_mode [of test_env initial_state "Some ''agent-id''" Direct "''Hello''" "Finite 1"]
  from A b t have ca: "fst (getCredentials test_env Applink initial_state)
     = Inr \<lparr>accessToken = ''applink-token'', apiInstanceUrl = ''https://api.salesforce.com''\<rparr>"
    by simp
  from A have la: "list_all (uses_base_url test_env Applink (snd ?a)) (requests_between initial_state (snd ?a))"
    unfolding list_all_iff by (metis prod.collapse)
  from D have ld: "list_all (uses_base_url test_env Direct (snd ?d)) (requests_between initial_state (snd ?d))"
    unfolding list_all_iff by (metis prod.collapse)
  from b ca g ua la ud ld show ?thesis by blast
qed

end
